theory Spec2Isabelle
  imports Main
begin

section \<open>Static asset handler of influxdb (static/assets.go)\<close>

text \<open>
  The development embeds \<^verbatim>\<open>static/assets.go\<close>: the request handler
  \<^verbatim>\<open>fileHandler2\<close>, the middleware \<^verbatim>\<open>mwSetCacheControl\<close> and the
  constructor \<^verbatim>\<open>NewAssetHandler\<close>. The Go standard library functions the handler
  calls (\<^verbatim>\<open>strings.TrimPrefix\<close>, \<^verbatim>\<open>filepath.Clean\<close>, \<^verbatim>\<open>filepath.Join\<close>,
  \<^verbatim>\<open>http.Error\<close>, \<^verbatim>\<open>http.ServeContent\<close>, \<^verbatim>\<open>fs.ValidPath\<close>) are modelled
  after their behaviour on a Unix system in Go 1.17, the release line the file was
  written for. Header names are written as the source writes them; the header map of
  net/http holds them in canonical form, so that \<open>ETag\<close> here is the \<open>Etag\<close> that
  \<^verbatim>\<open>http.ServeContent\<close> reads.
\<close>

subsection \<open>Path functions of the standard library\<close>

text \<open>\<^verbatim>\<open>strings.TrimPrefix(s, prefix)\<close>: \<open>s\<close> without the leading \<open>prefix\<close>, or \<open>s\<close>
  itself when it does not start with \<open>prefix\<close>.\<close>

definition TrimPrefix :: "string \<Rightarrow> string \<Rightarrow> string" where
  "TrimPrefix s prefix =
     (if take (length prefix) s = prefix then drop (length prefix) s else s)"

text \<open>The elements of a path: the pieces between separators, empty pieces included
  (\<open>''a//b''\<close> has the elements \<open>''a''\<close>, \<open>''''\<close>, \<open>''b''\<close>).\<close>

fun elements :: "string \<Rightarrow> string list" where
  "elements [] = [[]]"
| "elements (c # cs) =
     (if c = CHR ''/'' then [] # elements cs
      else (case elements cs of
              [] \<Rightarrow> [[c]]
            | e # es \<Rightarrow> (c # e) # es))"

fun join_sep :: "string list \<Rightarrow> string" where
  "join_sep [] = []"
| "join_sep [e] = e"
| "join_sep (e # es) = e @ CHR ''/'' # join_sep es"

text \<open>
  The loop of \<^verbatim>\<open>filepath.Clean\<close> over the elements of the path. \<open>out\<close> is the output
  written so far, last element first. An empty element and \<open>''.''\<close> are skipped. On
  \<open>''..''\<close> the last element written is dropped when there is one that is not itself
  \<open>''..''\<close>; otherwise a rooted path ignores the \<open>''..''\<close> and an unrooted path keeps it.
\<close>

fun clean_loop :: "bool \<Rightarrow> string list \<Rightarrow> string list \<Rightarrow> string list" where
  "clean_loop rooted out [] = rev out"
| "clean_loop rooted out (e # es) =
     (if e = [] \<or> e = ''.'' then clean_loop rooted out es
      else if e = ''..'' then
        (case out of
           [] \<Rightarrow> if rooted then clean_loop rooted [] es else clean_loop rooted [''..''] es
         | t # ts \<Rightarrow> if t = ''..'' then clean_loop rooted (''..'' # out) es
                     else clean_loop rooted ts es)
      else clean_loop rooted (e # out) es)"

text \<open>\<^verbatim>\<open>filepath.Clean\<close>: the shortest equivalent path by lexical processing. The empty
  path becomes \<open>''.''\<close>, as does an unrooted path that cleans to nothing.\<close>

definition Clean :: "string \<Rightarrow> string" where
  "Clean path =
     (case path of
        [] \<Rightarrow> ''.''
      | c # _ \<Rightarrow>
          (let rooted = (c = CHR ''/'');
               out = join_sep (clean_loop rooted [] (elements path))
           in if rooted then CHR ''/'' # out
              else if out = [] then ''.'' else out))"

text \<open>\<^verbatim>\<open>filepath.Join(a, b)\<close>: leading empty arguments are ignored, the rest is joined
  with the separator and cleaned; when both are empty the result is empty.\<close>

definition Join :: "string \<Rightarrow> string \<Rightarrow> string" where
  "Join a b =
     (if a \<noteq> [] then Clean (a @ CHR ''/'' # b)
      else if b \<noteq> [] then Clean b
      else [])"

text \<open>\<^verbatim>\<open>fs.ValidPath\<close>: the name is \<open>''.''\<close>, or none of its elements is empty,
  \<open>''.''\<close> or \<open>''..''\<close> (so it is unrooted and has no trailing separator). The UTF-8
  check of the original is left out: names are byte strings here.\<close>

definition plain :: "string \<Rightarrow> bool" where
  "plain elem = (elem \<noteq> [] \<and> elem \<noteq> ''.'' \<and> elem \<noteq> ''..'')"

definition ValidPath :: "string \<Rightarrow> bool" where
  "ValidPath name = (name = ''.'' \<or> list_all plain (elements name))"

subsection \<open>File systems, files and errors\<close>

text \<open>A Go \<^verbatim>\<open>error\<close> value: its text (\<^verbatim>\<open>err.Error()\<close>) and whether
  \<^verbatim>\<open>os.IsNotExist\<close> holds of it.\<close>

datatype error = MkError (IsNotExist: bool) (ErrorText: string)

text \<open>\<^verbatim>\<open>fs.FileInfo\<close>: base name, size in bytes and modification time in seconds of
  the Unix epoch (\<open>None\<close> is the zero time, which embedded files report).\<close>

record FileInfo =
  Name :: string
  Size :: int
  ModTime :: "int option"

text \<open>An \<^verbatim>\<open>io.ReadSeeker\<close>: the bytes it reads, and whether its \<^verbatim>\<open>Seek\<close> fails.\<close>

record seeker =
  Bytes :: string
  SeekFails :: bool

text \<open>An open \<^verbatim>\<open>fs.File\<close>: what \<^verbatim>\<open>Stat\<close> returns, and the handle as an
  \<^verbatim>\<open>io.ReadSeeker\<close> (\<open>None\<close> when it does not implement the interface).\<close>

record File =
  Stat :: "error + FileInfo"
  ReadSeeker :: "seeker option"

text \<open>\<^verbatim>\<open>fs.FS\<close>: the result of \<^verbatim>\<open>Open(name)\<close>.\<close>

type_synonym FS = "string \<Rightarrow> error + File"

subsection \<open>The response writer and the trace of effects\<close>

datatype event =
    EvOpen string bool
  | EvClose string
  | EvHeaderSet string string
  | EvHeaderAdd string string
  | EvHeaderDel string
  | EvWriteHeader nat
  | EvWrite string
  | EvServeContent string

text \<open>
  The state of one exchange: the header map of the \<^verbatim>\<open>http.ResponseWriter\<close>, the status
  (\<open>None\<close> until the header is written), the body sent to the client, and the trace of
  every effect of the handler in order. \<open>EvOpen name ok\<close> records a call of \<^verbatim>\<open>Open\<close>
  and whether it returned a handle; handles are named by the name they were opened under.
\<close>

record exchange =
  header :: "string \<Rightarrow> string list"
  status :: "nat option"
  body :: string
  trace :: "event list"

definition log :: "event \<Rightarrow> exchange \<Rightarrow> exchange" where
  "log e w = w\<lparr>trace := trace w @ [e]\<rparr>"

definition Header_Set :: "string \<Rightarrow> string \<Rightarrow> exchange \<Rightarrow> exchange" where
  "Header_Set k v w = log (EvHeaderSet k v) (w\<lparr>header := (header w)(k := [v])\<rparr>)"

definition Header_Add :: "string \<Rightarrow> string \<Rightarrow> exchange \<Rightarrow> exchange" where
  "Header_Add k v w = log (EvHeaderAdd k v) (w\<lparr>header := (header w)(k := header w k @ [v])\<rparr>)"

definition Header_Del :: "string \<Rightarrow> exchange \<Rightarrow> exchange" where
  "Header_Del k w = log (EvHeaderDel k) (w\<lparr>header := (header w)(k := [])\<rparr>)"

text \<open>\<^verbatim>\<open>Header.Get\<close>: the first value under the key, or the empty string.\<close>

definition Header_Get :: "string \<Rightarrow> exchange \<Rightarrow> string" where
  "Header_Get k w = (case header w k of [] \<Rightarrow> [] | v # vs \<Rightarrow> v)"

text \<open>net/http: a response with status 1xx, 204 or 304 has no body.\<close>

definition bodyAllowedForStatus :: "nat \<Rightarrow> bool" where
  "bodyAllowedForStatus code = (\<not> (100 \<le> code \<and> code \<le> 199) \<and> code \<noteq> 204 \<and> code \<noteq> 304)"

text \<open>\<^verbatim>\<open>WriteHeader\<close>: only the first call sets the status.\<close>

definition WriteHeader :: "nat \<Rightarrow> exchange \<Rightarrow> exchange" where
  "WriteHeader code w =
     log (EvWriteHeader code) (if status w = None then w\<lparr>status := Some code\<rparr> else w)"

text \<open>\<^verbatim>\<open>Write\<close>: writes the header with status 200 when it is not written yet; the
  bytes are dropped (\<^verbatim>\<open>ErrBodyNotAllowed\<close>) when the status admits no body.\<close>

definition Write :: "string \<Rightarrow> exchange \<Rightarrow> exchange" where
  "Write b w =
     log (EvWrite b)
       (case status w of
          None \<Rightarrow> w\<lparr>status := Some 200, body := body w @ b\<rparr>
        | Some code \<Rightarrow> if bodyAllowedForStatus code then w\<lparr>body := body w @ b\<rparr> else w)"

text \<open>\<^verbatim>\<open>http.Error(w, msg, code)\<close>: a plain-text reply, the message followed by a
  newline.\<close>

definition http_Error :: "string \<Rightarrow> nat \<Rightarrow> exchange \<Rightarrow> exchange" where
  "http_Error msg code w =
     Write (msg @ [CHR 0x0A])
       (WriteHeader code
         (Header_Set ''X-Content-Type-Options'' ''nosniff''
           (Header_Set ''Content-Type'' ''text/plain; charset=utf-8'' w)))"

text \<open>\<^verbatim>\<open>fmt.Sprintf("%d", n)\<close>.\<close>

fun digits :: "nat \<Rightarrow> string" where
  "digits n =
     (if n < 10 then [char_of (48 + n)]
      else digits (n div 10) @ [char_of (48 + n mod 10)])"

declare digits.simps [simp del]

definition Sprint_d :: "int \<Rightarrow> string" where
  "Sprint_d n = (if n < 0 then CHR ''-'' # digits (nat (- n)) else digits (nat n))"

text \<open>The request, as far as the handler and \<^verbatim>\<open>http.ServeContent\<close> read it: the path,
  the method, and \<^verbatim>\<open>r.Header.Get\<close> (the empty string for a header that is absent).\<close>

record Request =
  URL_Path :: string
  Method :: string
  Get :: "string \<Rightarrow> string"

text \<open>
  What the handler takes from outside: the commit of \<^verbatim>\<open>platform.GetBuildInfo()\<close>, the
  embedded file system \<^verbatim>\<open>assets\<close>, \<^verbatim>\<open>os.DirFS\<close>, and the parsing and formatting
  functions of the standard library that \<^verbatim>\<open>http.ServeContent\<close> calls:
  \<^verbatim>\<open>mime.TypeByExtension\<close> of the extension of a name (empty when unknown),
  \<^verbatim>\<open>http.DetectContentType\<close>, whether some entity tag of an \<open>If-Match\<close> value strongly
  matches a tag (\<open>*\<close> matches all), the same for \<open>If-None-Match\<close> and weak matching,
  \<^verbatim>\<open>scanETag\<close>, \<^verbatim>\<open>http.ParseTime\<close>, the format of \<open>Last-Modified\<close>,
  \<^verbatim>\<open>parseRange\<close>, and the multipart encoding of several ranges with its boundary.
\<close>

datatype ranges = Ranges "(int \<times> int) list" | NoOverlap | BadRange string

record env =
  Commit :: string
  assets :: FS
  DirFS :: "string \<Rightarrow> FS"
  TypeByExtension :: "string \<Rightarrow> string"
  DetectContentType :: "string \<Rightarrow> string"
  AnyStrongMatch :: "string \<Rightarrow> string \<Rightarrow> bool"
  AnyWeakMatch :: "string \<Rightarrow> string \<Rightarrow> bool"
  ScanETag :: "string \<Rightarrow> string"
  ParseTime :: "string \<Rightarrow> int option"
  FormatTime :: "int \<Rightarrow> string"
  ParseRange :: "string \<Rightarrow> int \<Rightarrow> ranges"
  Multipart :: "(int \<times> int) list \<Rightarrow> string \<Rightarrow> int \<Rightarrow> string \<Rightarrow> string"
  Boundary :: string

subsection \<open>\<^verbatim>\<open>http.ServeContent\<close>\<close>

text \<open>\<^verbatim>\<open>isZeroTime\<close>: the zero time or the Unix epoch. \<^verbatim>\<open>setLastModified\<close> sets the
  header for any other time.\<close>

definition isZeroTime :: "int option \<Rightarrow> bool" where
  "isZeroTime modtime = (modtime = None \<or> modtime = Some 0)"

definition setLastModified :: "env \<Rightarrow> int option \<Rightarrow> exchange \<Rightarrow> exchange" where
  "setLastModified E modtime w =
     (case modtime of
        None \<Rightarrow> w
      | Some t \<Rightarrow> if t = 0 then w else Header_Set ''Last-Modified'' (FormatTime E t) w)"

datatype condResult = condNone | condTrue | condFalse

definition getOrHead :: "Request \<Rightarrow> bool" where
  "getOrHead r = (Method r = ''GET'' \<or> Method r = ''HEAD'')"

definition checkIfMatch :: "env \<Rightarrow> Request \<Rightarrow> exchange \<Rightarrow> condResult" where
  "checkIfMatch E r w =
     (let im = Get r ''If-Match''
      in if im = [] then condNone
         else if AnyStrongMatch E im (Header_Get ''ETag'' w) then condTrue else condFalse)"

definition checkIfUnmodifiedSince :: "env \<Rightarrow> Request \<Rightarrow> int option \<Rightarrow> condResult" where
  "checkIfUnmodifiedSince E r modtime =
     (let ius = Get r ''If-Unmodified-Since''
      in if ius = [] \<or> isZeroTime modtime then condNone
         else (case (modtime, ParseTime E ius) of
                 (Some m, Some t) \<Rightarrow> if m \<le> t then condTrue else condFalse
               | _ \<Rightarrow> condNone))"

definition checkIfNoneMatch :: "env \<Rightarrow> Request \<Rightarrow> exchange \<Rightarrow> condResult" where
  "checkIfNoneMatch E r w =
     (let inm = Get r ''If-None-Match''
      in if inm = [] then condNone
         else if AnyWeakMatch E inm (Header_Get ''ETag'' w) then condFalse else condTrue)"

definition checkIfModifiedSince :: "env \<Rightarrow> Request \<Rightarrow> int option \<Rightarrow> condResult" where
  "checkIfModifiedSince E r modtime =
     (if \<not> getOrHead r then condNone
      else let ims = Get r ''If-Modified-Since''
           in if ims = [] \<or> isZeroTime modtime then condNone
              else (case (modtime, ParseTime E ims) of
                      (Some m, Some t) \<Rightarrow> if m \<le> t then condFalse else condTrue
                    | _ \<Rightarrow> condNone))"

text \<open>\<^verbatim>\<open>etagStrongMatch\<close>: equal, not empty, and not weak.\<close>

definition etagStrongMatch :: "string \<Rightarrow> string \<Rightarrow> bool" where
  "etagStrongMatch a b = (a = b \<and> a \<noteq> [] \<and> hd a = CHR 0x22)"

definition checkIfRange :: "env \<Rightarrow> Request \<Rightarrow> int option \<Rightarrow> exchange \<Rightarrow> condResult" where
  "checkIfRange E r modtime w =
     (if \<not> getOrHead r then condNone
      else let ir = Get r ''If-Range''
           in if ir = [] then condNone
              else if ScanETag E ir \<noteq> [] then
                (if etagStrongMatch (ScanETag E ir) (Header_Get ''ETag'' w)
                 then condTrue else condFalse)
              else (case (modtime, ParseTime E ir) of
                      (Some m, Some t) \<Rightarrow> if t = m then condTrue else condFalse
                    | _ \<Rightarrow> condFalse))"

text \<open>\<^verbatim>\<open>writeNotModified\<close>: a 304 without the metadata of the representation.\<close>

definition writeNotModified :: "exchange \<Rightarrow> exchange" where
  "writeNotModified w =
     (let w1 = Header_Del ''Content-Length'' (Header_Del ''Content-Type'' w);
          w2 = (if Header_Get ''ETag'' w1 \<noteq> [] then Header_Del ''Last-Modified'' w1 else w1)
      in WriteHeader 304 w2)"

text \<open>\<^verbatim>\<open>checkPreconditions\<close>: \<open>None\<close> when the response is complete (412 or 304),
  otherwise the range header to serve, which is empty when there is none or when
  \<open>If-Range\<close> does not hold.\<close>

definition checkPreconditions ::
    "env \<Rightarrow> Request \<Rightarrow> int option \<Rightarrow> exchange \<Rightarrow> string option \<times> exchange" where
  "checkPreconditions E r modtime w =
     (let ch = (case checkIfMatch E r w of
                  condNone \<Rightarrow> checkIfUnmodifiedSince E r modtime
                | c \<Rightarrow> c)
      in if ch = condFalse then (None, WriteHeader 412 w)
         else (case checkIfNoneMatch E r w of
                 condFalse \<Rightarrow>
                   if getOrHead r then (None, writeNotModified w)
                   else (None, WriteHeader 412 w)
               | c \<Rightarrow>
                   if c = condNone \<and> checkIfModifiedSince E r modtime = condFalse
                   then (None, writeNotModified w)
                   else (let rangeHeader = Get r ''Range''
                         in if rangeHeader \<noteq> [] \<and> checkIfRange E r modtime w = condFalse
                            then (Some [], w) else (Some rangeHeader, w))))"

text \<open>\<^verbatim>\<open>parseRange\<close>: no ranges for the empty header.\<close>

definition parseRange :: "env \<Rightarrow> string \<Rightarrow> int \<Rightarrow> ranges" where
  "parseRange E s n = (if s = [] then Ranges [] else ParseRange E s n)"

definition sumRangesSize :: "(int \<times> int) list \<Rightarrow> int" where
  "sumRangesSize rs = sum_list (map snd rs)"

text \<open>\<^verbatim>\<open>httpRange.contentRange\<close>, \<^verbatim>\<open>fmt.Sprintf("bytes %d-%d/%d", start, start+length-1, size)\<close>.\<close>

definition contentRange :: "int \<times> int \<Rightarrow> int \<Rightarrow> string" where
  "contentRange ra n =
     ''bytes '' @ Sprint_d (fst ra) @ ''-'' @ Sprint_d (fst ra + snd ra - 1) @ ''/'' @ Sprint_d n"

text \<open>
  The end of \<^verbatim>\<open>serveContent\<close>: the whole content with status 200, one range or several
  with status 206; then \<open>Accept-Ranges\<close>, \<open>Content-Length\<close> unless the content is
  encoded, the status line, and the bytes unless the method is HEAD. The copy to the
  writer is one \<^verbatim>\<open>Write\<close>.
\<close>

definition sendRanges ::
    "env \<Rightarrow> Request \<Rightarrow> string \<Rightarrow> int \<Rightarrow> (int \<times> int) list \<Rightarrow> string \<Rightarrow> exchange \<Rightarrow> exchange" where
  "sendRanges E r ctype n rs content w =
     (let (code, sendContent, w1) =
        (case rs of
           [] \<Rightarrow> (200, content, w)
         | [ra] \<Rightarrow>
             (206, take (nat (snd ra)) (drop (nat (fst ra)) content),
              Header_Set ''Content-Range'' (contentRange ra n) w)
         | _ \<Rightarrow>
             (206, Multipart E rs ctype n content,
              Header_Set ''Content-Type'' (''multipart/byteranges; boundary='' @ Boundary E) w));
          w2 = Header_Set ''Accept-Ranges'' ''bytes'' w1;
          w3 = (if Header_Get ''Content-Encoding'' w2 = []
                then Header_Set ''Content-Length'' (Sprint_d (int (length sendContent))) w2
                else w2);
          w4 = WriteHeader code w3
      in if Method r \<noteq> ''HEAD'' then Write sendContent w4 else w4)"

text \<open>
  The middle of \<^verbatim>\<open>serveContent\<close>. When \<open>Content-Type\<close> is not set it is taken from the
  extension of the name or, failing that, detected from the first 512 bytes, after which
  the content is rewound. The size is found by seeking. A \<^verbatim>\<open>Seek\<close> that fails ends
  the response with 500, a range that cannot be served with 416.
\<close>

definition serveBody ::
    "env \<Rightarrow> Request \<Rightarrow> string \<Rightarrow> string \<Rightarrow> seeker \<Rightarrow> exchange \<Rightarrow> exchange" where
  "serveBody E r name rangeReq content w =
     (if header w ''Content-Type'' = [] \<and> TypeByExtension E name = [] \<and> SeekFails content
      then http_Error ''seeker can't seek'' 500 w
      else
        (let w1 = (if header w ''Content-Type'' = []
                   then Header_Set ''Content-Type''
                          (if TypeByExtension E name = []
                           then DetectContentType E (take 512 (Bytes content))
                           else TypeByExtension E name) w
                   else w);
             ctype = Header_Get ''Content-Type'' w1;
             n = int (length (Bytes content))
         in if SeekFails content then http_Error ''seeker can't seek'' 500 w1
            else (case parseRange E rangeReq n of
                    NoOverlap \<Rightarrow>
                      http_Error ''invalid range: failed to overlap'' 416
                        (Header_Set ''Content-Range'' (''bytes */'' @ Sprint_d n) w1)
                  | BadRange msg \<Rightarrow> http_Error msg 416 w1
                  | Ranges rs \<Rightarrow>
                      sendRanges E r ctype n (if sumRangesSize rs > n then [] else rs)
                        (Bytes content) w1)))"

text \<open>\<^verbatim>\<open>http.ServeContent(w, r, name, modtime, content)\<close>.\<close>

definition ServeContent ::
    "env \<Rightarrow> Request \<Rightarrow> string \<Rightarrow> int option \<Rightarrow> seeker \<Rightarrow> exchange \<Rightarrow> exchange" where
  "ServeContent E r name modtime content w =
     (let w1 = setLastModified E modtime (log (EvServeContent name) w)
      in case checkPreconditions E r modtime w1 of
           (None, w2) \<Rightarrow> w2
         | (Some rangeReq, w2) \<Rightarrow> serveBody E r name rangeReq content w2)"

definition Open :: "FS \<Rightarrow> string \<Rightarrow> exchange \<Rightarrow> (error + File) \<times> exchange" where
  "Open fileOpener name w = (fileOpener name, log (EvOpen name (\<not> isl (fileOpener name))) w)"

definition Close :: "string \<Rightarrow> exchange \<Rightarrow> exchange" where
  "Close h w = log (EvClose h) w"

subsection \<open>The handler\<close>

datatype outcome = Returned | Panicked

type_synonym Handler = "Request \<Rightarrow> exchange \<Rightarrow> outcome \<times> exchange"

definition defaultFile :: string where
  "defaultFile = ''index.html''"

definition embedPrefix :: string where
  "embedPrefix = ''build''"

text \<open>\<^verbatim>\<open>err.Error()\<close>: the text of an error; on the nil error the call is a nil
  dereference and the goroutine panics (\<open>None\<close>).\<close>

definition Error_method :: "error option \<Rightarrow> string option" where
  "Error_method err = (case err of None \<Rightarrow> None | Some e \<Rightarrow> Some (ErrorText e))"

text \<open>Lines 60 to 68 of \<^verbatim>\<open>fileHandler2\<close>: the cleaned name; for the root the index
  file under \<open>dir\<close>, with the content type set.\<close>

definition requestName :: "string \<Rightarrow> Request \<Rightarrow> exchange \<Rightarrow> string \<times> exchange" where
  "requestName dir r w =
     (let name = Clean (TrimPrefix (URL_Path r) ''/'')
      in if name = ''.''
         then (Join dir defaultFile, Header_Set ''Content-Type'' ''text/html'' w)
         else (name, w))"

text \<open>Line 106, \<^verbatim>\<open>fmt.Sprintf(`W/"%s-%d-%s"`, name, size, commit)\<close>.\<close>

definition Sprintf_etag :: "string \<Rightarrow> int \<Rightarrow> string \<Rightarrow> string" where
  "Sprintf_etag name n commit =
     ''W/\"'' @ name @ ''-'' @ Sprint_d n @ ''-'' @ commit @ ''\"''"

text \<open>
  Lines 87 to 113: the handle \<open>h\<close> of the file \<open>f\<close> is open and its \<^verbatim>\<open>Close\<close> is
  deferred, so it runs on return and on panic alike. After a successful \<^verbatim>\<open>Stat\<close> the
  variable \<^verbatim>\<open>err\<close> is nil, and that is the \<^verbatim>\<open>err\<close> line 98 calls \<^verbatim>\<open>Error()\<close> on.
\<close>

definition serveOpened ::
    "env \<Rightarrow> Request \<Rightarrow> string \<Rightarrow> string \<Rightarrow> File \<Rightarrow> exchange \<Rightarrow> outcome \<times> exchange" where
  "serveOpened E r name h f w =
     (let (out, w') =
        (case Stat f of
           Inl err \<Rightarrow> (Returned, http_Error (ErrorText err) 403 w)
         | Inr i \<Rightarrow>
             (case ReadSeeker f of
                None \<Rightarrow>
                  (case Error_method None of
                     None \<Rightarrow> (Panicked, w)
                   | Some msg \<Rightarrow> (Returned, http_Error msg 500 w))
              | Some content \<Rightarrow>
                  (let etag = Sprintf_etag (Name i) (Size i) (Commit E)
                   in (Returned,
                       ServeContent E r name (ModTime i) content (Header_Set ''ETag'' etag w)))))
      in (out, Close h w'))"

text \<open>\<^verbatim>\<open>fileHandler2\<close>: lines 70 to 86 open the requested name and, when it does not
  exist, the index file; the rest is \<open>serveOpened\<close>.\<close>

definition fileHandler2 :: "env \<Rightarrow> FS \<Rightarrow> string \<Rightarrow> Handler" where
  "fileHandler2 E fileOpener dir r w =
     (let (name, w0) = requestName dir r w
      in case Open fileOpener (Join dir name) w0 of
           (Inr f, w1) \<Rightarrow> serveOpened E r name (Join dir name) f w1
         | (Inl err, w1) \<Rightarrow>
             (if IsNotExist err then
                (case Open fileOpener (Join dir defaultFile) w1 of
                   (Inr f, w2) \<Rightarrow>
                     serveOpened E r name (Join dir defaultFile) f
                       (Header_Set ''Content-Type'' ''text/html'' w2)
                 | (Inl err', w2) \<Rightarrow> (Returned, http_Error (ErrorText err') 204 w2))
              else (Returned, http_Error (ErrorText err) 204 w1)))"

definition mwSetCacheControl :: "Handler \<Rightarrow> Handler" where
  "mwSetCacheControl next r w = next r (Header_Add ''Cache-Control'' ''public, max-age=3600'' w)"

definition NewAssetHandler :: "env \<Rightarrow> string \<Rightarrow> Handler" where
  "NewAssetHandler E assetsPath =
     mwSetCacheControl
       (if assetsPath \<noteq> [] then fileHandler2 E (DirFS E assetsPath) []
        else fileHandler2 E (assets E) embedPrefix)"

subsection \<open>Observations on a trace\<close>

text \<open>The names passed to \<^verbatim>\<open>Open\<close>, and those for which it returned a handle.\<close>

fun openCalls :: "event list \<Rightarrow> string list" where
  "openCalls [] = []"
| "openCalls (EvOpen n ok # es) = n # openCalls es"
| "openCalls (e # es) = openCalls es"

fun opened :: "event list \<Rightarrow> string list" where
  "opened [] = []"
| "opened (EvOpen n ok # es) = (if ok then n # opened es else opened es)"
| "opened (e # es) = opened es"

fun closed :: "event list \<Rightarrow> string list" where
  "closed [] = []"
| "closed (EvClose n # es) = n # closed es"
| "closed (e # es) = closed es"

text \<open>The handles that are open after a trace, given those open before it: a successful
  \<^verbatim>\<open>Open\<close> adds its handle, \<^verbatim>\<open>Close\<close> removes it.\<close>

fun openHandles :: "string list \<Rightarrow> event list \<Rightarrow> string list" where
  "openHandles hs [] = hs"
| "openHandles hs (EvOpen n ok # es) = openHandles (if ok then n # hs else hs) es"
| "openHandles hs (EvClose n # es) = openHandles (remove1 n hs) es"
| "openHandles hs (e # es) = openHandles hs es"

text \<open>The events by which the response leaves the handler: the status line, body bytes,
  and the call of \<^verbatim>\<open>http.ServeContent\<close>.\<close>

fun isWrite :: "event \<Rightarrow> bool" where
  "isWrite (EvWriteHeader c) = True"
| "isWrite (EvWrite b) = True"
| "isWrite (EvServeContent n) = True"
| "isWrite e = False"

text \<open>The events that change the values of a header.\<close>

fun touchesHeader :: "string \<Rightarrow> event \<Rightarrow> bool" where
  "touchesHeader k (EvHeaderSet k' v) = (k' = k)"
| "touchesHeader k (EvHeaderAdd k' v) = (k' = k)"
| "touchesHeader k (EvHeaderDel k') = (k' = k)"
| "touchesHeader k e = False"

text \<open>The events of the file system, as opposed to those of the response writer.\<close>

fun isFileEvent :: "event \<Rightarrow> bool" where
  "isFileEvent (EvOpen n ok) = True"
| "isFileEvent (EvClose n) = True"
| "isFileEvent e = False"

text \<open>\<open>w'\<close> comes from \<open>w\<close> by effects on the response writer only, none of them on
  the headers \<open>Cache-Control\<close> and \<open>ETag\<close>.\<close>

definition writerOnly :: "exchange \<Rightarrow> exchange \<Rightarrow> bool" where
  "writerOnly w w' =
     ((\<exists>evs. trace w' = trace w @ evs \<and> list_all (\<lambda>e. \<not> isFileEvent e) evs) \<and>
      header w' ''Cache-Control'' = header w ''Cache-Control'' \<and>
      header w' ''ETag'' = header w ''ETag'')"

text \<open>What the client sees of an exchange.\<close>

definition response :: "exchange \<Rightarrow> (string \<Rightarrow> string list) \<times> nat option \<times> string" where
  "response w = (header w, status w, body w)"

subsection \<open>Asset sources\<close>

text \<open>The exchange as the server hands it to the handler: nothing set, nothing written.\<close>

definition newExchange :: exchange where
  "newExchange = \<lparr>header = (\<lambda>k. []), status = None, body = [], trace = []\<rparr>"

text \<open>A GET request that carries no conditional and no range header.\<close>

definition plainGET :: "Request \<Rightarrow> bool" where
  "plainGET r =
     (Method r = ''GET'' \<and> Get r ''If-Match'' = [] \<and> Get r ''If-Unmodified-Since'' = [] \<and>
      Get r ''If-None-Match'' = [] \<and> Get r ''If-Modified-Since'' = [] \<and> Get r ''Range'' = [])"

definition GET :: "string \<Rightarrow> Request" where
  "GET path = \<lparr>URL_Path = path, Method = ''GET'', Get = (\<lambda>k. [])\<rparr>"

text \<open>The name the handler looks up first (line 72).\<close>

definition requested :: "string \<Rightarrow> Request \<Rightarrow> string" where
  "requested dir r = Join dir (fst (requestName dir r newExchange))"


text \<open>A source that follows the contract of \<^verbatim>\<open>fs.FS\<close>: \<^verbatim>\<open>Open\<close> rejects every name
  that is not a valid path.\<close>

definition rejectsInvalid :: "FS \<Rightarrow> bool" where
  "rejectsInvalid fileOpener = (\<forall>name. \<not> ValidPath name \<longrightarrow> isl (fileOpener name))"

text \<open>The embedded bundle holds under \<open>build/\<close> what the directory holds at its root.\<close>

definition sameLayout :: "FS \<Rightarrow> FS \<Rightarrow> bool" where
  "sameLayout dirSource embedSource =
     (\<forall>p. ValidPath p \<and> p \<noteq> ''.'' \<longrightarrow> embedSource (''build/'' @ p) = dirSource p)"

text \<open>Files and sources for concrete runs. A regular file is seekable; a directory of an
  embedded file system has \<^verbatim>\<open>Stat\<close> but no \<^verbatim>\<open>Seek\<close>.\<close>

definition regular :: "string \<Rightarrow> string \<Rightarrow> File" where
  "regular name content =
     \<lparr>Stat = Inr \<lparr>Name = name, Size = int (length content), ModTime = None\<rparr>,
      ReadSeeker = Some \<lparr>Bytes = content, SeekFails = False\<rparr>\<rparr>"

definition directory :: "string \<Rightarrow> File" where
  "directory name =
     \<lparr>Stat = Inr \<lparr>Name = name, Size = 0, ModTime = None\<rparr>, ReadSeeker = None\<rparr>"

definition ErrNotExist :: "string \<Rightarrow> error" where
  "ErrNotExist name = MkError True (''open '' @ name @ '': file does not exist'')"

definition ErrInvalid :: "string \<Rightarrow> error" where
  "ErrInvalid name = MkError False (''open '' @ name @ '': invalid argument'')"

definition ErrPermission :: "string \<Rightarrow> error" where
  "ErrPermission name = MkError False (''open '' @ name @ '': permission denied'')"

text \<open>A source given by a table of entries; a name not in the table does not exist.\<close>

definition tableFS :: "(string \<times> (error + File)) list \<Rightarrow> FS" where
  "tableFS table name =
     (case map_of table name of None \<Rightarrow> Inl (ErrNotExist name) | Some res \<Rightarrow> res)"

text \<open>\<^verbatim>\<open>embed.FS\<close> reports an invalid name as not existing; \<^verbatim>\<open>os.DirFS\<close> reports it
  as invalid.\<close>

definition embedFS :: "(string \<times> (error + File)) list \<Rightarrow> FS" where
  "embedFS table name =
     (if ValidPath name then tableFS table name else Inl (ErrNotExist name))"

definition osDirFS :: "(string \<times> (error + File)) list \<Rightarrow> FS" where
  "osDirFS table name =
     (if ValidPath name then tableFS table name else Inl (ErrInvalid name))"

text \<open>An environment for concrete runs: every extension is unknown and all content is
  detected as binary; an \<open>If-Match\<close> or \<open>If-None-Match\<close> value matches the tag it is
  equal to; no time and no range parses.\<close>

definition testEnv :: env where
  "testEnv =
     \<lparr>Commit = ''abc123'',
      assets = embedFS [],
      DirFS = (\<lambda>path. osDirFS []),
      TypeByExtension = (\<lambda>name. []),
      DetectContentType = (\<lambda>content. ''application/octet-stream''),
      AnyStrongMatch = (\<lambda>value tag. False),
      AnyWeakMatch = (\<lambda>value tag. value = tag),
      ScanETag = (\<lambda>value. []),
      ParseTime = (\<lambda>value. None),
      FormatTime = (\<lambda>t. []),
      ParseRange = (\<lambda>value n. BadRange ''invalid range''),
      Multipart = (\<lambda>rs ctype n content. []),
      Boundary = []\<rparr>"

text \<open>A bundle with the index file, a script, a directory, and a second index file one
  level down.\<close>

definition uiBundle :: "(string \<times> (error + File)) list" where
  "uiBundle =
     [(''build/index.html'', Inr (regular ''index.html'' ''<html>A</html>'')),
      (''build/app.js'', Inr (regular ''app.js'' ''B'')),
      (''build/static'', Inr (directory ''static'')),
      (''build/build/index.html'', Inr (regular ''index.html'' ''nested''))]"

text \<open>A directory with the index file, a script and an entry that cannot be read.\<close>

definition site :: "(string \<times> (error + File)) list" where
  "site =
     [(''index.html'', Inr (regular ''index.html'' ''<html>A</html>'')),
      (''app.js'', Inr (regular ''app.js'' ''B'')),
      (''private'', Inl (ErrPermission ''private''))]"




section \<open>Properties\<close>

subsection \<open>The response writer\<close>

lemma log_simps [simp]:
  "header (log e w) = header w" "status (log e w) = status w"
  "body (log e w) = body w" "trace (log e w) = trace w @ [e]"
  by (simp_all add: log_def)

lemma Header_Set_simps [simp]:
  "header (Header_Set k v w) = (header w)(k := [v])"
  "status (Header_Set k v w) = status w"
  "body (Header_Set k v w) = body w"
  "trace (Header_Set k v w) = trace w @ [EvHeaderSet k v]"
  by (simp_all add: Header_Set_def)

lemma Header_Add_simps [simp]:
  "header (Header_Add k v w) = (header w)(k := header w k @ [v])"
  "status (Header_Add k v w) = status w"
  "body (Header_Add k v w) = body w"
  "trace (Header_Add k v w) = trace w @ [EvHeaderAdd k v]"
  by (simp_all add: Header_Add_def)

lemma Header_Del_simps [simp]:
  "header (Header_Del k w) = (header w)(k := [])"
  "status (Header_Del k w) = status w"
  "body (Header_Del k w) = body w"
  "trace (Header_Del k w) = trace w @ [EvHeaderDel k]"
  by (simp_all add: Header_Del_def)

lemma WriteHeader_simps [simp]:
  "header (WriteHeader c w) = header w"
  "status (WriteHeader c w) = (case status w of None \<Rightarrow> Some c | Some c' \<Rightarrow> Some c')"
  "body (WriteHeader c w) = body w"
  "trace (WriteHeader c w) = trace w @ [EvWriteHeader c]"
  by (simp_all add: WriteHeader_def split: option.splits)

lemma Write_simps [simp]:
  "header (Write b w) = header w"
  "status (Write b w) = (case status w of None \<Rightarrow> Some 200 | Some c' \<Rightarrow> Some c')"
  "body (Write b w) =
     (case status w of
        None \<Rightarrow> body w @ b
      | Some c \<Rightarrow> if bodyAllowedForStatus c then body w @ b else body w)"
  "trace (Write b w) = trace w @ [EvWrite b]"
  by (simp_all add: Write_def split: option.splits)

lemma Close_simps [simp]:
  "header (Close h w) = header w" "status (Close h w) = status w"
  "body (Close h w) = body w" "trace (Close h w) = trace w @ [EvClose h]"
  by (simp_all add: Close_def)

lemma Open_simps [simp]:
  "fst (Open fileOpener name w) = fileOpener name"
  "snd (Open fileOpener name w) = log (EvOpen name (\<not> isl (fileOpener name))) w"
  by (simp_all add: Open_def)

lemma bodyAllowed_simps [simp]:
  "bodyAllowedForStatus 200" "\<not> bodyAllowedForStatus 204" "bodyAllowedForStatus 403"
  by (simp_all add: bodyAllowedForStatus_def)

lemma http_Error_simps [simp]:
  "header (http_Error msg c w) =
     (header w)(''Content-Type'' := [''text/plain; charset=utf-8''],
                ''X-Content-Type-Options'' := [''nosniff''])"
  "status (http_Error msg c w) = (case status w of None \<Rightarrow> Some c | Some c' \<Rightarrow> Some c')"
  "trace (http_Error msg c w) =
     trace w @ [EvHeaderSet ''Content-Type'' ''text/plain; charset=utf-8'',
                EvHeaderSet ''X-Content-Type-Options'' ''nosniff'',
                EvWriteHeader c, EvWrite (msg @ [CHR 0x0A])]"
  by (simp_all add: http_Error_def split: option.splits)

lemma http_Error_body:
  "status w = None \<Longrightarrow>
   body (http_Error msg c w) =
     (if bodyAllowedForStatus c then body w @ msg @ [CHR 0x0A] else body w)"
  by (simp add: http_Error_def)

subsection \<open>Observations distribute over a trace\<close>

lemma openCalls_append [simp]: "openCalls (xs @ ys) = openCalls xs @ openCalls ys"
  by (induction xs rule: openCalls.induct) simp_all

lemma opened_append [simp]: "opened (xs @ ys) = opened xs @ opened ys"
  by (induction xs rule: opened.induct) simp_all

lemma closed_append [simp]: "closed (xs @ ys) = closed xs @ closed ys"
  by (induction xs rule: closed.induct) simp_all

lemma openHandles_append [simp]:
  "openHandles hs (xs @ ys) = openHandles (openHandles hs xs) ys"
  by (induction hs xs rule: openHandles.induct) simp_all

subsection \<open>Effects on the response writer only\<close>

lemma writerOnly_refl [simp]: "writerOnly w w"
  by (simp add: writerOnly_def)

lemma writerOnly_trans: "writerOnly w w1 \<Longrightarrow> writerOnly w1 w2 \<Longrightarrow> writerOnly w w2"
  by (auto simp: writerOnly_def)

lemma writerOnly_log: "\<not> isFileEvent e \<Longrightarrow> writerOnly w w1 \<Longrightarrow> writerOnly w (log e w1)"
  by (auto simp: writerOnly_def)

lemma writerOnly_Header_Set:
  "k \<noteq> ''Cache-Control'' \<Longrightarrow> k \<noteq> ''ETag'' \<Longrightarrow> writerOnly w w1 \<Longrightarrow>
   writerOnly w (Header_Set k v w1)"
  by (auto simp: writerOnly_def)

lemma writerOnly_Header_Del:
  "k \<noteq> ''Cache-Control'' \<Longrightarrow> k \<noteq> ''ETag'' \<Longrightarrow> writerOnly w w1 \<Longrightarrow>
   writerOnly w (Header_Del k w1)"
  by (auto simp: writerOnly_def)

lemma writerOnly_WriteHeader: "writerOnly w w1 \<Longrightarrow> writerOnly w (WriteHeader c w1)"
  by (auto simp: writerOnly_def)

lemma writerOnly_Write: "writerOnly w w1 \<Longrightarrow> writerOnly w (Write b w1)"
  by (auto simp: writerOnly_def)

lemma writerOnly_http_Error: "writerOnly w w1 \<Longrightarrow> writerOnly w (http_Error msg c w1)"
  by (auto simp: writerOnly_def)

lemmas writerOnly_intros =
  writerOnly_log writerOnly_Header_Set writerOnly_Header_Del writerOnly_WriteHeader
  writerOnly_Write writerOnly_http_Error

lemma writerOnly_trace: "writerOnly w w' \<Longrightarrow> \<exists>evs. trace w' = trace w @ evs"
  by (auto simp: writerOnly_def)

lemma no_file_events:
  "list_all (\<lambda>e. \<not> isFileEvent e) evs \<Longrightarrow>
   openCalls evs = [] \<and> opened evs = [] \<and> closed evs = [] \<and> openHandles hs evs = hs"
proof (induction evs arbitrary: hs)
  case Nil
  then show ?case by simp
next
  case (Cons e evs)
  then show ?case by (cases e) simp_all
qed

subsection \<open>Cleaning a valid path\<close>

lemma elements_not_Nil [simp]: "elements s \<noteq> []"
  by (induction s) (auto split: list.splits)

lemma join_sep_Cons: "es \<noteq> [] \<Longrightarrow> join_sep (e # es) = e @ CHR ''/'' # join_sep es"
  by (cases es) simp_all

lemma join_sep_elements [simp]: "join_sep (elements s) = s"
proof (induction s)
  case Nil
  show ?case by simp
next
  case (Cons c cs)
  show ?case
  proof (cases "c = CHR ''/''")
    case True
    with Cons show ?thesis by (simp add: join_sep_Cons)
  next
    case False
    obtain e es where split: "elements cs = e # es"
      by (cases "elements cs") simp_all
    have "join_sep ((c # e) # es) = c # join_sep (e # es)"
      by (cases es) simp_all
    with False split Cons show ?thesis by simp
  qed
qed

lemma clean_loop_plain:
  "list_all plain es \<Longrightarrow> clean_loop rooted out es = rev out @ es"
  by (induction es arbitrary: out) (simp_all add: plain_def)

lemma ValidPath_plain:
  "ValidPath name \<Longrightarrow> name \<noteq> ''.'' \<Longrightarrow> list_all plain (elements name)"
  by (simp add: ValidPath_def)

lemma ValidPath_unrooted:
  assumes "ValidPath name" "name \<noteq> ''.''"
  shows "name \<noteq> [] \<and> hd name \<noteq> CHR ''/''"
proof -
  have els: "list_all plain (elements name)"
    using assms by (rule ValidPath_plain)
  show ?thesis
  proof (cases name)
    case Nil
    with els show ?thesis by (simp add: plain_def)
  next
    case (Cons c cs)
    with els show ?thesis by (auto simp: plain_def)
  qed
qed

lemma Clean_valid:
  assumes "ValidPath name" "name \<noteq> ''.''"
  shows "Clean name = name"
proof -
  have els: "list_all plain (elements name)"
    using assms by (rule ValidPath_plain)
  obtain c cs where name: "name = c # cs" and c: "c \<noteq> CHR ''/''"
    using ValidPath_unrooted [OF assms] by (cases name) auto
  have "join_sep (clean_loop False [] (elements name)) = name"
    using els by (simp add: clean_loop_plain)
  then show ?thesis
    using name c by (simp add: Clean_def)
qed

lemma elements_build: "elements (''build/'' @ name) = ''build'' # elements name"
  by simp

lemma Clean_build_valid:
  assumes "ValidPath name" "name \<noteq> ''.''"
  shows "Clean (''build/'' @ name) = ''build/'' @ name"
proof -
  have els: "list_all plain (elements name)"
    using assms by (rule ValidPath_plain)
  have "list_all plain (''build'' # elements name)"
    using els by (simp add: plain_def)
  then have "clean_loop False [] (elements (''build/'' @ name)) = ''build'' # elements name"
    by (simp only: elements_build clean_loop_plain) simp
  then have "join_sep (clean_loop False [] (elements (''build/'' @ name))) = ''build/'' @ name"
    by (simp add: join_sep_Cons)
  then show ?thesis
    by (simp add: Clean_def)
qed

lemma Join_empty_valid: "ValidPath name \<Longrightarrow> name \<noteq> ''.'' \<Longrightarrow> Join [] name = name"
  using ValidPath_unrooted [of name] by (simp add: Join_def Clean_valid)

lemma Join_build_valid:
  "ValidPath name \<Longrightarrow> name \<noteq> ''.'' \<Longrightarrow> Join ''build'' name = ''build/'' @ name"
  using Clean_build_valid [of name] by (simp add: Join_def)

lemma ValidPath_index [simp]: "ValidPath ''index.html''"
  by (simp add: ValidPath_def plain_def)

lemma Join_index [simp]:
  "Join [] defaultFile = ''index.html''" "Join ''build'' defaultFile = ''build/index.html''"
  using Join_empty_valid [of "''index.html''"] Join_build_valid [of "''index.html''"]
  by (simp_all add: defaultFile_def)

subsection \<open>\<^verbatim>\<open>http.ServeContent\<close>\<close>

lemma writerOnly_setLastModified:
  "writerOnly w w1 \<Longrightarrow> writerOnly w (setLastModified E modtime w1)"
  by (simp add: setLastModified_def writerOnly_intros split: option.splits)

lemma writerOnly_writeNotModified: "writerOnly w w1 \<Longrightarrow> writerOnly w (writeNotModified w1)"
  by (simp add: writeNotModified_def Let_def writerOnly_intros)

lemma writerOnly_checkPreconditions:
  "writerOnly w w1 \<Longrightarrow> writerOnly w (snd (checkPreconditions E r modtime w1))"
  by (simp add: checkPreconditions_def Let_def writerOnly_WriteHeader
        writerOnly_writeNotModified split: condResult.splits)

lemma sendRanges_simps:
  "sendRanges E r ctype n [] content w =
     (let w2 = Header_Set ''Accept-Ranges'' ''bytes'' w;
          w3 = (if Header_Get ''Content-Encoding'' w2 = []
                then Header_Set ''Content-Length'' (Sprint_d (int (length content))) w2
                else w2);
          w4 = WriteHeader 200 w3
      in if Method r \<noteq> ''HEAD'' then Write content w4 else w4)"
  "sendRanges E r ctype n [ra] content w =
     (let sendContent = take (nat (snd ra)) (drop (nat (fst ra)) content);
          w2 = Header_Set ''Accept-Ranges'' ''bytes''
                 (Header_Set ''Content-Range'' (contentRange ra n) w);
          w3 = (if Header_Get ''Content-Encoding'' w2 = []
                then Header_Set ''Content-Length'' (Sprint_d (int (length sendContent))) w2
                else w2);
          w4 = WriteHeader 206 w3
      in if Method r \<noteq> ''HEAD'' then Write sendContent w4 else w4)"
  "sendRanges E r ctype n (ra # rb # rs) content w =
     (let sendContent = Multipart E (ra # rb # rs) ctype n content;
          w2 = Header_Set ''Accept-Ranges'' ''bytes''
                 (Header_Set ''Content-Type''
                    (''multipart/byteranges; boundary='' @ Boundary E) w);
          w3 = (if Header_Get ''Content-Encoding'' w2 = []
                then Header_Set ''Content-Length'' (Sprint_d (int (length sendContent))) w2
                else w2);
          w4 = WriteHeader 206 w3
      in if Method r \<noteq> ''HEAD'' then Write sendContent w4 else w4)"
  by (simp_all only: sendRanges_def list.case prod.case Let_def)

lemma writerOnly_sendRanges:
  assumes "writerOnly w w1"
  shows "writerOnly w (sendRanges E r ctype n rs content w1)"
proof (cases rs)
  case Nil
  then show ?thesis
    using assms by (simp only: sendRanges_simps Let_def) (simp add: writerOnly_intros)
next
  case (Cons ra rs')
  then show ?thesis
  proof (cases rs')
    case Nil
    with Cons show ?thesis
      using assms by (simp only: sendRanges_simps Let_def) (simp add: writerOnly_intros)
  next
    case (Cons rb rs'')
    with \<open>rs = ra # rs'\<close> show ?thesis
      using assms by (simp only: sendRanges_simps Let_def) (simp add: writerOnly_intros)
  qed
qed

lemma writerOnly_serveBody:
  assumes "writerOnly w w1"
  shows "writerOnly w (serveBody E r name rangeReq content w1)"
  using assms
  by (simp add: serveBody_def Let_def writerOnly_intros writerOnly_sendRanges
        split: ranges.splits)

lemma writerOnly_ServeContent: "writerOnly w (ServeContent E r name modtime content w)"
proof -
  let ?w1 = "setLastModified E modtime (log (EvServeContent name) w)"
  have w1: "writerOnly w ?w1"
    by (simp add: writerOnly_setLastModified writerOnly_log)
  then have w2: "writerOnly w (snd (checkPreconditions E r modtime ?w1))"
    by (rule writerOnly_checkPreconditions)
  show ?thesis
  proof (cases "fst (checkPreconditions E r modtime ?w1)")
    case None
    then have "ServeContent E r name modtime content w = snd (checkPreconditions E r modtime ?w1)"
      by (simp add: ServeContent_def Let_def case_prod_beta)
    with w2 show ?thesis by simp
  next
    case (Some rangeReq)
    then have "ServeContent E r name modtime content w =
        serveBody E r name rangeReq content (snd (checkPreconditions E r modtime ?w1))"
      by (simp add: ServeContent_def Let_def case_prod_beta)
    with w2 show ?thesis by (simp add: writerOnly_serveBody)
  qed
qed

lemma ServeContent_trace_extends:
  "\<exists>evs. trace (ServeContent E r name modtime content w) = trace w @ evs"
  using writerOnly_ServeContent by (rule writerOnly_trace)

lemma ServeContent_files [simp]:
  "openCalls (trace (ServeContent E r name modtime content w)) = openCalls (trace w)"
  "opened (trace (ServeContent E r name modtime content w)) = opened (trace w)"
  "closed (trace (ServeContent E r name modtime content w)) = closed (trace w)"
  "openHandles hs (trace (ServeContent E r name modtime content w)) = openHandles hs (trace w)"
  using writerOnly_ServeContent [of w E r name modtime content]
  by (auto simp: writerOnly_def no_file_events)

lemma ServeContent_header_kept [simp]:
  "header (ServeContent E r name modtime content w) ''Cache-Control'' = header w ''Cache-Control''"
  "header (ServeContent E r name modtime content w) ''ETag'' = header w ''ETag''"
  using writerOnly_ServeContent [of w E r name modtime content]
  by (simp_all add: writerOnly_def)

text \<open>A GET request without conditional and range headers gets the whole content.\<close>

lemma checkPreconditions_plain:
  "plainGET r \<Longrightarrow> checkPreconditions E r modtime w = (Some [], w)"
  by (simp add: plainGET_def checkPreconditions_def checkIfMatch_def checkIfUnmodifiedSince_def
        checkIfNoneMatch_def checkIfModifiedSince_def Let_def)

lemma setLastModified_simps [simp]:
  "status (setLastModified E modtime w) = status w"
  "body (setLastModified E modtime w) = body w"
  "header (setLastModified E modtime w) ''Content-Type'' = header w ''Content-Type''"
  by (simp_all add: setLastModified_def split: option.splits)

lemma setLastModified_trace:
  "\<exists>evs. trace (setLastModified E modtime w) = trace w @ evs \<and>
         list_all (\<lambda>e. \<not> touchesHeader ''Content-Type'' e) evs"
  by (simp add: setLastModified_def split: option.splits)

lemma ServeContent_plain:
  assumes "plainGET r" and "\<not> SeekFails content" and "header w ''Content-Type'' \<noteq> []"
    and "status w = None"
  shows "status (ServeContent E r name modtime content w) = Some 200"
    and "body (ServeContent E r name modtime content w) = body w @ Bytes content"
    and "header (ServeContent E r name modtime content w) ''Content-Type''
           = header w ''Content-Type''"
    and "\<exists>evs. trace (ServeContent E r name modtime content w) = trace w @ evs \<and>
           list_all (\<lambda>e. \<not> touchesHeader ''Content-Type'' e) evs"
proof -
  let ?w1 = "setLastModified E modtime (log (EvServeContent name) w)"
  have get: "Method r \<noteq> ''HEAD''"
    using assms(1) by (simp add: plainGET_def)
  have ct: "header ?w1 ''Content-Type'' \<noteq> []"
    using assms(3) by simp
  have run: "ServeContent E r name modtime content w =
      sendRanges E r (Header_Get ''Content-Type'' ?w1) (int (length (Bytes content))) []
        (Bytes content) ?w1"
    using assms(1,2) ct
    by (simp add: ServeContent_def checkPreconditions_plain serveBody_def parseRange_def
          sumRangesSize_def Let_def)
  obtain evs where evs: "trace ?w1 = trace w @ evs"
      "list_all (\<lambda>e. \<not> touchesHeader ''Content-Type'' e) evs"
    using setLastModified_trace [of E modtime "log (EvServeContent name) w"]
    by auto
  show "status (ServeContent E r name modtime content w) = Some 200"
    using assms(4) get by (simp add: run sendRanges_simps Let_def)
  show "body (ServeContent E r name modtime content w) = body w @ Bytes content"
    using assms(4) get by (simp add: run sendRanges_simps Let_def)
  show "header (ServeContent E r name modtime content w) ''Content-Type''
           = header w ''Content-Type''"
    using get by (simp add: run sendRanges_simps Let_def)
  show "\<exists>evs. trace (ServeContent E r name modtime content w) = trace w @ evs \<and>
           list_all (\<lambda>e. \<not> touchesHeader ''Content-Type'' e) evs"
    using get evs by (simp add: run sendRanges_simps Let_def)
qed

subsection \<open>The paths through the handler\<close>

lemma requestName_fst: "fst (requestName dir r w) = fst (requestName dir r w')"
  by (simp add: requestName_def Let_def)

lemma requested_eq: "Join dir (fst (requestName dir r w)) = requested dir r"
  unfolding requested_def by (rule arg_cong [OF requestName_fst])

lemma requestName_snd [simp]:
  "status (snd (requestName dir r w)) = status w"
  "body (snd (requestName dir r w)) = body w"
  "openCalls (trace (snd (requestName dir r w))) = openCalls (trace w)"
  "opened (trace (snd (requestName dir r w))) = opened (trace w)"
  "closed (trace (snd (requestName dir r w))) = closed (trace w)"
  "openHandles hs (trace (snd (requestName dir r w))) = openHandles hs (trace w)"
  "header (snd (requestName dir r w)) ''Cache-Control'' = header w ''Cache-Control''"
  by (simp_all add: requestName_def Let_def)

lemma requestName_trace:
  "trace (snd (requestName dir r w)) =
     trace w @ (if Clean (TrimPrefix (URL_Path r) ''/'') = ''.''
                then [EvHeaderSet ''Content-Type'' ''text/html''] else [])"
  by (simp add: requestName_def Let_def)

lemma serveOpened_stat_fails:
  "Stat f = Inl err \<Longrightarrow>
   serveOpened E r name h f w = (Returned, Close h (http_Error (ErrorText err) 403 w))"
  by (simp add: serveOpened_def)

lemma serveOpened_not_seekable:
  "Stat f = Inr i \<Longrightarrow> ReadSeeker f = None \<Longrightarrow>
   serveOpened E r name h f w = (Panicked, Close h w)"
  by (simp add: serveOpened_def Error_method_def)

lemma serveOpened_serves:
  "Stat f = Inr i \<Longrightarrow> ReadSeeker f = Some content \<Longrightarrow>
   serveOpened E r name h f w =
     (Returned,
      Close h (ServeContent E r name (ModTime i) content
        (Header_Set ''ETag'' (Sprintf_etag (Name i) (Size i) (Commit E)) w)))"
  by (simp add: serveOpened_def Let_def)

lemma serveOpened_cases:
  obtains (stat_fails) err where "Stat f = Inl err"
    | (not_seekable) i where "Stat f = Inr i" "ReadSeeker f = None"
    | (serves) i content where "Stat f = Inr i" "ReadSeeker f = Some content"
  by (cases "Stat f"; cases "ReadSeeker f") auto

lemma fileHandler2_found:
  "fileOpener (requested dir r) = Inr f \<Longrightarrow>
   fileHandler2 E fileOpener dir r w =
     serveOpened E r (fst (requestName dir r w)) (requested dir r) f
       (log (EvOpen (requested dir r) True) (snd (requestName dir r w)))"
  by (simp add: fileHandler2_def Open_def Let_def case_prod_beta requested_eq)

lemma fileHandler2_fallback:
  "fileOpener (requested dir r) = Inl err \<Longrightarrow> IsNotExist err \<Longrightarrow>
   fileOpener (Join dir defaultFile) = Inr f \<Longrightarrow>
   fileHandler2 E fileOpener dir r w =
     serveOpened E r (fst (requestName dir r w)) (Join dir defaultFile) f
       (Header_Set ''Content-Type'' ''text/html''
         (log (EvOpen (Join dir defaultFile) True)
           (log (EvOpen (requested dir r) False) (snd (requestName dir r w)))))"
  by (simp add: fileHandler2_def Open_def Let_def case_prod_beta requested_eq)

lemma fileHandler2_absent:
  "fileOpener (requested dir r) = Inl err \<Longrightarrow> IsNotExist err \<Longrightarrow>
   fileOpener (Join dir defaultFile) = Inl err' \<Longrightarrow>
   fileHandler2 E fileOpener dir r w =
     (Returned,
      http_Error (ErrorText err') 204
        (log (EvOpen (Join dir defaultFile) False)
          (log (EvOpen (requested dir r) False) (snd (requestName dir r w)))))"
  by (simp add: fileHandler2_def Open_def Let_def case_prod_beta requested_eq)

lemma fileHandler2_open_fails:
  "fileOpener (requested dir r) = Inl err \<Longrightarrow> \<not> IsNotExist err \<Longrightarrow>
   fileHandler2 E fileOpener dir r w =
     (Returned,
      http_Error (ErrorText err) 204
        (log (EvOpen (requested dir r) False) (snd (requestName dir r w))))"
  by (simp add: fileHandler2_def Open_def Let_def case_prod_beta requested_eq)

lemma fileHandler2_cases:
  obtains (found) f where "fileOpener (requested dir r) = Inr f"
    | (fallback) err f where "fileOpener (requested dir r) = Inl err" "IsNotExist err"
        "fileOpener (Join dir defaultFile) = Inr f"
    | (absent) err err' where "fileOpener (requested dir r) = Inl err" "IsNotExist err"
        "fileOpener (Join dir defaultFile) = Inl err'"
    | (open_fails) err where "fileOpener (requested dir r) = Inl err" "\<not> IsNotExist err"
  by (cases "fileOpener (requested dir r)"; cases "fileOpener (Join dir defaultFile)") auto


subsection \<open>What every run of the handler preserves\<close>

lemma serveOpened_trace_extends:
  "\<exists>evs. trace (snd (serveOpened E r name h f w)) = trace w @ evs"
proof (cases f rule: serveOpened_cases)
  case (stat_fails err)
  then show ?thesis by (simp add: serveOpened_stat_fails)
next
  case (not_seekable i)
  then show ?thesis by (simp add: serveOpened_not_seekable)
next
  case (serves i content)
  obtain evs where "trace (ServeContent E r name (ModTime i) content
      (Header_Set ''ETag'' (Sprintf_etag (Name i) (Size i) (Commit E)) w)) =
      trace (Header_Set ''ETag'' (Sprintf_etag (Name i) (Size i) (Commit E)) w) @ evs"
    using ServeContent_trace_extends by blast
  with serves show ?thesis by (simp add: serveOpened_serves)
qed

lemma fileHandler2_trace_extends:
  "\<exists>evs. trace (snd (fileHandler2 E fileOpener dir r w)) = trace w @ evs"
proof (cases fileOpener dir r rule: fileHandler2_cases)
  case (found f)
  have run: "fileHandler2 E fileOpener dir r w =
      serveOpened E r (fst (requestName dir r w)) (requested dir r) f
        (log (EvOpen (requested dir r) True) (snd (requestName dir r w)))"
    using found by (rule fileHandler2_found)
  obtain evs where "trace (snd (fileHandler2 E fileOpener dir r w)) =
      trace (log (EvOpen (requested dir r) True) (snd (requestName dir r w))) @ evs"
    using serveOpened_trace_extends unfolding run by blast
  then show ?thesis by (simp add: requestName_trace)
next
  case (fallback err f)
  have run: "fileHandler2 E fileOpener dir r w =
      serveOpened E r (fst (requestName dir r w)) (Join dir defaultFile) f
       (Header_Set ''Content-Type'' ''text/html''
         (log (EvOpen (Join dir defaultFile) True)
           (log (EvOpen (requested dir r) False) (snd (requestName dir r w)))))"
    using fallback by (rule fileHandler2_fallback)
  obtain evs where "trace (snd (fileHandler2 E fileOpener dir r w)) =
      trace (Header_Set ''Content-Type'' ''text/html''
         (log (EvOpen (Join dir defaultFile) True)
           (log (EvOpen (requested dir r) False) (snd (requestName dir r w))))) @ evs"
    using serveOpened_trace_extends unfolding run by blast
  then show ?thesis by (simp add: requestName_trace)
next
  case (absent err err')
  then show ?thesis by (simp add: fileHandler2_absent requestName_trace)
next
  case (open_fails err)
  then show ?thesis by (simp add: fileHandler2_open_fails requestName_trace)
qed

lemma serveOpened_cache_control:
  "header (snd (serveOpened E r name h f w)) ''Cache-Control'' = header w ''Cache-Control''"
  by (cases f rule: serveOpened_cases)
     (simp_all add: serveOpened_stat_fails serveOpened_not_seekable serveOpened_serves)

lemma fileHandler2_cache_control:
  "header (snd (fileHandler2 E fileOpener dir r w)) ''Cache-Control'' = header w ''Cache-Control''"
  by (cases fileOpener dir r rule: fileHandler2_cases)
     (simp_all add: fileHandler2_found fileHandler2_fallback fileHandler2_absent
        fileHandler2_open_fails serveOpened_cache_control)

subsection \<open>A handle that cannot seek\<close>

text \<open>
  C1. In the embedded bundle a directory opens and its \<^verbatim>\<open>Stat\<close> succeeds, but the handle
  does not implement \<^verbatim>\<open>io.ReadSeeker\<close>. Line 98 then calls \<^verbatim>\<open>err.Error()\<close> on the
  \<^verbatim>\<open>err\<close> of the successful \<^verbatim>\<open>Stat\<close>, which is nil: the handler panics before
  \<^verbatim>\<open>http.Error\<close> runs. No status 500 is set and nothing is written; the deferred
  \<^verbatim>\<open>Close\<close> still runs.
\<close>

theorem fileHandler2_not_seekable_panics:
  "embedFS uiBundle (requested embedPrefix (GET ''/static'')) = Inr (directory ''static'') \<and>
   Stat (directory ''static'') = Inr \<lparr>Name = ''static'', Size = 0, ModTime = None\<rparr> \<and>
   ReadSeeker (directory ''static'') = None \<and>
   fst (fileHandler2 testEnv (embedFS uiBundle) embedPrefix (GET ''/static'') newExchange) = Panicked \<and>
   status (snd (fileHandler2 testEnv (embedFS uiBundle) embedPrefix (GET ''/static'') newExchange)) = None \<and>
   body (snd (fileHandler2 testEnv (embedFS uiBundle) embedPrefix (GET ''/static'') newExchange)) = [] \<and>
   trace (snd (fileHandler2 testEnv (embedFS uiBundle) embedPrefix (GET ''/static'') newExchange))
     = [EvOpen ''build/static'' True, EvClose ''build/static'']"
  by code_simp

subsection \<open>No bundle\<close>

text \<open>
  C2. When the requested entry does not exist and the index file cannot be opened either
  (in particular when it does not exist), the handler, started on an exchange on which
  nothing is written yet, returns with status 204 and an empty body: \<^verbatim>\<open>http.Error\<close>
  passes the text of the error to the writer, and the writer sends no body with a 204.
\<close>

theorem fileHandler2_no_content:
  assumes "fileOpener (requested dir r) = Inl err" and "IsNotExist err"
    and "fileOpener (Join dir defaultFile) = Inl err'"
    and "status w = None" and "body w = []"
  shows "fst (fileHandler2 E fileOpener dir r w) = Returned \<and>
         status (snd (fileHandler2 E fileOpener dir r w)) = Some 204 \<and>
         body (snd (fileHandler2 E fileOpener dir r w)) = []"
proof -
  have "fileHandler2 E fileOpener dir r w =
      (Returned,
       http_Error (ErrorText err') 204
         (log (EvOpen (Join dir defaultFile) False)
           (log (EvOpen (requested dir r) False) (snd (requestName dir r w)))))"
    using assms(1-3) by (rule fileHandler2_absent)
  then show ?thesis
    using assms(4,5) by (simp add: http_Error_body)
qed

theorem fileHandler2_no_content_witness:
  "embedFS [] (requested embedPrefix (GET ''/x/y'')) = Inl (ErrNotExist ''build/x/y'') \<and>
   IsNotExist (ErrNotExist ''build/x/y'') \<and>
   embedFS [] (Join embedPrefix defaultFile) = Inl (ErrNotExist ''build/index.html'') \<and>
   status newExchange = None \<and> body newExchange = [] \<and>
   fst (fileHandler2 testEnv (embedFS []) embedPrefix (GET ''/x/y'') newExchange) = Returned \<and>
   status (snd (fileHandler2 testEnv (embedFS []) embedPrefix (GET ''/x/y'') newExchange)) = Some 204 \<and>
   body (snd (fileHandler2 testEnv (embedFS []) embedPrefix (GET ''/x/y'') newExchange)) = []"
proof -
  have h1: "embedFS [] (requested embedPrefix (GET ''/x/y'')) = Inl (ErrNotExist ''build/x/y'')"
    by code_simp
  have h2: "IsNotExist (ErrNotExist ''build/x/y'')"
    by (simp add: ErrNotExist_def)
  have h3: "embedFS [] (Join embedPrefix defaultFile) = Inl (ErrNotExist ''build/index.html'')"
    by code_simp
  have h4: "status newExchange = None" and h5: "body newExchange = []"
    by (simp_all add: newExchange_def)
  show ?thesis
    using fileHandler2_no_content [OF h1 h2 h3 h4 h5, of testEnv] h1 h2 h3 h4 h5 by simp
qed

subsection \<open>The root request\<close>

text \<open>
  C3. For the root the handler sets the name to \<^verbatim>\<open>filepath.Join(dir, defaultFile)\<close> on
  line 66 and joins it to \<open>dir\<close> once more on line 72. With the prefix \<open>build\<close> the
  first \<^verbatim>\<open>Open\<close> is therefore for \<open>build/build/index.html\<close>. In a bundle that has the
  index file \<open>build/index.html\<close> and also a file under that second name, the root
  request is answered with the content of the second file. With the empty prefix the
  root request gets the index file.
\<close>

theorem fileHandler2_root_embedded_wrong_file:
  "embedFS uiBundle (Join embedPrefix defaultFile) = Inr (regular ''index.html'' ''<html>A</html>'') \<and>
   openCalls (trace (snd (fileHandler2 testEnv (embedFS uiBundle) embedPrefix (GET ''/'') newExchange)))
     = [''build/build/index.html''] \<and>
   status (snd (fileHandler2 testEnv (embedFS uiBundle) embedPrefix (GET ''/'') newExchange)) = Some 200 \<and>
   body (snd (fileHandler2 testEnv (embedFS uiBundle) embedPrefix (GET ''/'') newExchange)) = ''nested'' \<and>
   body (snd (fileHandler2 testEnv (embedFS uiBundle) embedPrefix (GET ''/'') newExchange))
     \<noteq> ''<html>A</html>'' \<and>
   body (snd (fileHandler2 testEnv (osDirFS site) [] (GET ''/'') newExchange)) = ''<html>A</html>''"
  by code_simp

subsection \<open>The fallback document\<close>

text \<open>
  C4. When the requested entry does not exist and the index file opens as a regular
  file (its \<^verbatim>\<open>Stat\<close> succeeds, it is seekable and its \<^verbatim>\<open>Seek\<close> does not fail), the
  handler, started on an exchange on which nothing is written yet, answers a GET request
  without conditional and range headers with status 200, the content of the index file
  as the body, and \<open>Content-Type\<close> exactly \<open>text/html\<close>. The type is forced before
  the response leaves: in the trace of the run no status line, no body byte and no call
  of \<^verbatim>\<open>http.ServeContent\<close> comes before the event that sets it, and nothing after
  that event sets, adds or deletes \<open>Content-Type\<close>, so \<^verbatim>\<open>http.ServeContent\<close> infers
  nothing from the name or the content. (For HEAD, conditional and range requests
  \<^verbatim>\<open>http.ServeContent\<close> answers without a body, with 304, 412, 416 or with a part of
  the content.)
\<close>

theorem fileHandler2_serves_fallback:
  assumes "fileOpener (requested dir r) = Inl err" and "IsNotExist err"
    and "fileOpener (Join dir defaultFile) = Inr f"
    and "Stat f = Inr i" and "ReadSeeker f = Some content" and "\<not> SeekFails content"
    and "plainGET r"
    and "status w = None" and "body w = []"
  shows "fst (fileHandler2 E fileOpener dir r w) = Returned \<and>
         status (snd (fileHandler2 E fileOpener dir r w)) = Some 200 \<and>
         body (snd (fileHandler2 E fileOpener dir r w)) = Bytes content \<and>
         header (snd (fileHandler2 E fileOpener dir r w)) ''Content-Type'' = [''text/html''] \<and>
         (\<exists>pre post. trace (snd (fileHandler2 E fileOpener dir r w)) =
            trace w @ pre @ EvHeaderSet ''Content-Type'' ''text/html'' # post \<and>
            list_all (\<lambda>e. \<not> isWrite e) pre \<and>
            list_all (\<lambda>e. \<not> touchesHeader ''Content-Type'' e) post)"
proof -
  let ?name = "fst (requestName dir r w)"
  let ?h = "Join dir defaultFile"
  let ?etag = "Sprintf_etag (Name i) (Size i) (Commit E)"
  let ?w0 = "log (EvOpen ?h True) (log (EvOpen (requested dir r) False) (snd (requestName dir r w)))"
  let ?w1 = "Header_Set ''ETag'' ?etag (Header_Set ''Content-Type'' ''text/html'' ?w0)"
  let ?served = "ServeContent E r ?name (ModTime i) content ?w1"
  have "fileHandler2 E fileOpener dir r w =
      serveOpened E r ?name ?h f (Header_Set ''Content-Type'' ''text/html'' ?w0)"
    using assms(1-3) by (rule fileHandler2_fallback)
  then have run: "fileHandler2 E fileOpener dir r w = (Returned, Close ?h ?served)"
    using assms(4,5) by (simp add: serveOpened_serves)
  have ct: "header ?w1 ''Content-Type'' \<noteq> []" and st: "status ?w1 = None"
    using assms(8) by simp_all
  note plain = ServeContent_plain [OF assms(7) assms(6) ct st, of E ?name "ModTime i"]
  have status: "status ?served = Some 200"
    by (rule plain(1))
  have "body ?served = body ?w1 @ Bytes content"
    by (rule plain(2))
  then have body: "body ?served = Bytes content"
    using assms(9) by simp
  have "header ?served ''Content-Type'' = header ?w1 ''Content-Type''"
    by (rule plain(3))
  then have type: "header ?served ''Content-Type'' = [''text/html'']"
    by simp
  obtain evs where evs: "trace ?served = trace ?w1 @ evs"
      and quiet: "list_all (\<lambda>e. \<not> touchesHeader ''Content-Type'' e) evs"
    using plain(4) by blast
  let ?pre = "(if Clean (TrimPrefix (URL_Path r) ''/'') = ''.''
               then [EvHeaderSet ''Content-Type'' ''text/html''] else [])
              @ [EvOpen (requested dir r) False, EvOpen ?h True]"
  let ?post = "EvHeaderSet ''ETag'' ?etag # evs @ [EvClose ?h]"
  have "trace (Close ?h ?served) =
      trace w @ ?pre @ EvHeaderSet ''Content-Type'' ''text/html'' # ?post"
    by (simp add: evs requestName_trace)
  moreover have "list_all (\<lambda>e. \<not> isWrite e) ?pre"
    by simp
  moreover have "list_all (\<lambda>e. \<not> touchesHeader ''Content-Type'' e) ?post"
    using quiet by simp
  ultimately have order: "\<exists>pre post. trace (Close ?h ?served) =
      trace w @ pre @ EvHeaderSet ''Content-Type'' ''text/html'' # post \<and>
      list_all (\<lambda>e. \<not> isWrite e) pre \<and>
      list_all (\<lambda>e. \<not> touchesHeader ''Content-Type'' e) post"
    by blast
  from status body type order show ?thesis
    by (simp only: run fst_conv snd_conv Close_simps)
qed

theorem fileHandler2_serves_fallback_witness:
  "osDirFS site (requested [] (GET ''/nonexistent/page'')) =
     Inl (ErrNotExist ''nonexistent/page'') \<and>
   IsNotExist (ErrNotExist ''nonexistent/page'') \<and>
   osDirFS site (Join [] defaultFile) = Inr (regular ''index.html'' ''<html>A</html>'') \<and>
   plainGET (GET ''/nonexistent/page'') \<and>
   status (snd (fileHandler2 testEnv (osDirFS site) [] (GET ''/nonexistent/page'')
     newExchange)) = Some 200 \<and>
   body (snd (fileHandler2 testEnv (osDirFS site) [] (GET ''/nonexistent/page'')
     newExchange)) = ''<html>A</html>'' \<and>
   header (snd (fileHandler2 testEnv (osDirFS site) [] (GET ''/nonexistent/page'')
     newExchange)) ''Content-Type'' = [''text/html'']"
proof -
  let ?f = "regular ''index.html'' ''<html>A</html>''"
  let ?c = "\<lparr>Bytes = ''<html>A</html>'', SeekFails = False\<rparr>"
  have h1: "osDirFS site (requested [] (GET ''/nonexistent/page'')) =
      Inl (ErrNotExist ''nonexistent/page'')"
    by code_simp
  have h2: "IsNotExist (ErrNotExist ''nonexistent/page'')"
    by (simp add: ErrNotExist_def)
  have h3: "osDirFS site (Join [] defaultFile) = Inr ?f"
    by code_simp
  have h4: "Stat ?f = Inr \<lparr>Name = ''index.html'', Size = 14, ModTime = None\<rparr>"
    by (simp add: regular_def)
  have h5: "ReadSeeker ?f = Some ?c"
    by (simp add: regular_def)
  have h6: "\<not> SeekFails ?c"
    by simp
  have h7: "plainGET (GET ''/nonexistent/page'')"
    by (simp add: plainGET_def GET_def)
  have h8: "status newExchange = None" and h9: "body newExchange = []"
    by (simp_all add: newExchange_def)
  show ?thesis
    using fileHandler2_serves_fallback [OF h1 h2 h3 h4 h5 h6 h7 h8 h9, of testEnv] h1 h2 h3 h7
    by simp
qed

subsection \<open>The ETag\<close>






subsection \<open>Names above the root\<close>




lemma rejectsInvalid_embedFS: "rejectsInvalid (embedFS table)"
  by (simp add: rejectsInvalid_def embedFS_def)



subsection \<open>Cache-Control\<close>

text \<open>
  C8. For every asset path, request and exchange, the handler built by
  \<^verbatim>\<open>NewAssetHandler\<close> first adds \<open>Cache-Control: public, max-age=3600\<close> and then runs
  the inner handler on the exchange that already holds the header: the header is the first
  new event of the trace, ahead of every effect of the inner handler, and it is still
  there when the handler is done, whatever the outcome (served, 204, 403 or panic).
\<close>

theorem NewAssetHandler_sets_cache_control:
  "NewAssetHandler E assetsPath r w =
     (if assetsPath \<noteq> [] then fileHandler2 E (DirFS E assetsPath) []
      else fileHandler2 E (assets E) embedPrefix) r
       (Header_Add ''Cache-Control'' ''public, max-age=3600'' w) \<and>
   (\<exists>evs. trace (snd (NewAssetHandler E assetsPath r w)) =
      trace w @ EvHeaderAdd ''Cache-Control'' ''public, max-age=3600'' # evs) \<and>
   header (snd (NewAssetHandler E assetsPath r w)) ''Cache-Control'' =
     header w ''Cache-Control'' @ [''public, max-age=3600'']"
proof -
  let ?w = "Header_Add ''Cache-Control'' ''public, max-age=3600'' w"
  let ?inner = "if assetsPath \<noteq> [] then fileHandler2 E (DirFS E assetsPath) []
      else fileHandler2 E (assets E) embedPrefix"
  obtain fs dir where inner: "?inner = fileHandler2 E fs dir"
    by (cases "assetsPath \<noteq> []") auto
  have run: "NewAssetHandler E assetsPath r w = ?inner r ?w"
    by (simp add: NewAssetHandler_def mwSetCacheControl_def)
  have run': "NewAssetHandler E assetsPath r w = fileHandler2 E fs dir r ?w"
    by (simp only: run inner)
  obtain evs where "trace (snd (fileHandler2 E fs dir r ?w)) = trace ?w @ evs"
    using fileHandler2_trace_extends by blast
  then have tr: "trace (snd (NewAssetHandler E assetsPath r w)) =
      trace w @ EvHeaderAdd ''Cache-Control'' ''public, max-age=3600'' # evs"
    by (simp add: run')
  have hd: "header (snd (NewAssetHandler E assetsPath r w)) ''Cache-Control'' =
      header w ''Cache-Control'' @ [''public, max-age=3600'']"
    by (simp add: run' fileHandler2_cache_control)
  from run tr hd show ?thesis by blast
qed

subsection \<open>Closing the handle\<close>

lemma serveOpened_closes:
  "opened (trace (snd (serveOpened E r name h f w))) = opened (trace w) \<and>
   closed (trace (snd (serveOpened E r name h f w))) = closed (trace w) @ [h] \<and>
   openHandles hs (trace (snd (serveOpened E r name h f w))) = remove1 h (openHandles hs (trace w))"
  by (cases f rule: serveOpened_cases)
     (simp_all add: serveOpened_stat_fails serveOpened_not_seekable serveOpened_serves)

text \<open>
  C9. Every handle the handler opens it also closes before it is done, on every path out
  of it, the panic included: the handles opened during a run are, in the same order, the
  handles closed during the run, and no handle that the run opened is open after it.
\<close>

theorem fileHandler2_closes_what_it_opens:
  "(\<exists>hs. opened (trace (snd (fileHandler2 E fileOpener dir r w))) = opened (trace w) @ hs \<and>
         closed (trace (snd (fileHandler2 E fileOpener dir r w))) = closed (trace w) @ hs) \<and>
   openHandles [] (trace (snd (fileHandler2 E fileOpener dir r w))) = openHandles [] (trace w)"
proof (cases fileOpener dir r rule: fileHandler2_cases)
  case (found f)
  have "fileHandler2 E fileOpener dir r w =
      serveOpened E r (fst (requestName dir r w)) (requested dir r) f
        (log (EvOpen (requested dir r) True) (snd (requestName dir r w)))"
    using found by (rule fileHandler2_found)
  then show ?thesis by (simp add: serveOpened_closes)
next
  case (fallback err f)
  have "fileHandler2 E fileOpener dir r w =
      serveOpened E r (fst (requestName dir r w)) (Join dir defaultFile) f
       (Header_Set ''Content-Type'' ''text/html''
         (log (EvOpen (Join dir defaultFile) True)
           (log (EvOpen (requested dir r) False) (snd (requestName dir r w)))))"
    using fallback by (rule fileHandler2_fallback)
  then show ?thesis by (simp add: serveOpened_closes)
next
  case (absent err err')
  then show ?thesis by (simp add: fileHandler2_absent)
next
  case (open_fails err)
  then show ?thesis by (simp add: fileHandler2_open_fails)
qed

subsection \<open>An open error other than not-exist\<close>

text \<open>
  C10, as stated, at a request for an entry that cannot be read, in a directory that has
  the index file: the only \<^verbatim>\<open>Open\<close> is for the entry and the status is 204, but the
  response does not carry the text of the error. The handler passes the text to
  \<^verbatim>\<open>http.Error\<close>, whose write the response writer drops because a 204 has no body.
\<close>

theorem fileHandler2_open_error_text_not_sent:
  "osDirFS site (requested [] (GET ''/private'')) = Inl (ErrPermission ''private'') \<and>
   \<not> IsNotExist (ErrPermission ''private'') \<and>
   ErrorText (ErrPermission ''private'') = ''open private: permission denied'' \<and>
   status (snd (fileHandler2 testEnv (osDirFS site) [] (GET ''/private'') newExchange)) = Some 204 \<and>
   body (snd (fileHandler2 testEnv (osDirFS site) [] (GET ''/private'') newExchange)) = [] \<and>
   body (snd (fileHandler2 testEnv (osDirFS site) [] (GET ''/private'') newExchange))
     \<noteq> ErrorText (ErrPermission ''private'') @ [CHR 0x0A] \<and>
   body (snd (fileHandler2 testEnv (osDirFS site) [] (GET ''/private'') newExchange))
     \<noteq> ErrorText (ErrPermission ''private'')"
  by code_simp

text \<open>
  C10, amended. When the first \<^verbatim>\<open>Open\<close> fails with an error other than not-exist,
  the handler, started on an exchange on which nothing is written yet, makes no second
  \<^verbatim>\<open>Open\<close> (the index file is not tried, whether it exists or not), returns with
  status 204, and ends with the write of the error text and a newline by
  \<^verbatim>\<open>http.Error\<close>, which adds nothing to the body.
\<close>

theorem fileHandler2_open_error:
  assumes "fileOpener (requested dir r) = Inl err" and "\<not> IsNotExist err"
    and "status w = None"
  shows "fst (fileHandler2 E fileOpener dir r w) = Returned \<and>
         openCalls (trace (snd (fileHandler2 E fileOpener dir r w)))
           = openCalls (trace w) @ [requested dir r] \<and>
         status (snd (fileHandler2 E fileOpener dir r w)) = Some 204 \<and>
         (\<exists>evs. trace (snd (fileHandler2 E fileOpener dir r w))
                  = evs @ [EvWriteHeader 204, EvWrite (ErrorText err @ [CHR 0x0A])]) \<and>
         body (snd (fileHandler2 E fileOpener dir r w)) = body w"
proof -
  have "fileHandler2 E fileOpener dir r w =
      (Returned,
       http_Error (ErrorText err) 204
         (log (EvOpen (requested dir r) False) (snd (requestName dir r w))))"
    using assms(1,2) by (rule fileHandler2_open_fails)
  then show ?thesis
    using assms(3) by (simp add: http_Error_body)
qed

theorem fileHandler2_open_error_witness:
  "osDirFS site (requested [] (GET ''/private'')) = Inl (ErrPermission ''private'') \<and>
   \<not> IsNotExist (ErrPermission ''private'') \<and> status newExchange = None \<and>
   fst (fileHandler2 testEnv (osDirFS site) [] (GET ''/private'') newExchange) = Returned \<and>
   openCalls (trace (snd (fileHandler2 testEnv (osDirFS site) [] (GET ''/private'') newExchange)))
     = [''private''] \<and>
   status (snd (fileHandler2 testEnv (osDirFS site) [] (GET ''/private'') newExchange)) = Some 204 \<and>
   body (snd (fileHandler2 testEnv (osDirFS site) [] (GET ''/private'') newExchange)) = []"
proof -
  have h1: "osDirFS site (requested [] (GET ''/private'')) = Inl (ErrPermission ''private'')"
    by code_simp
  have h2: "\<not> IsNotExist (ErrPermission ''private'')"
    by (simp add: ErrPermission_def)
  have h3: "status newExchange = None"
    by (simp add: newExchange_def)
  have h4: "requested [] (GET ''/private'') = ''private''"
    by code_simp
  have h5: "trace newExchange = []" "body newExchange = []"
    by (simp_all add: newExchange_def)
  show ?thesis
    using fileHandler2_open_error [where fileOpener = "osDirFS site" and dir = "[]"
        and r = "GET ''/private''" and err = "ErrPermission ''private''"
        and w = newExchange and E = testEnv, OF h1 h2 h3] h1 h2 h3 h4 h5 by simp
qed


end
